theory Spec2Isabelle
  imports Main
begin

section \<open>JavaScript strings\<close>

text \<open>
  A JavaScript string is modelled as a \<open>string\<close> of bytes (its UTF-8 encoding). The
  helpers below follow the \<open>String.prototype\<close> methods that \<open>main.js\<close> calls.
\<close>

definition dq :: char where
  "dq = CHR 0x22"

definition quoted :: "string \<Rightarrow> string" where
  "quoted s = dq # s @ [dq]"

definition startsWith :: "string \<Rightarrow> string \<Rightarrow> bool" where
  "startsWith s pat = (take (length pat) s = pat)"

fun str_includes :: "string \<Rightarrow> string \<Rightarrow> bool" where
  "str_includes [] pat = (pat = [])"
| "str_includes (c # cs) pat = (startsWith (c # cs) pat \<or> str_includes cs pat)"

definition lower_char :: "char \<Rightarrow> char" where
  "lower_char c =
     (case map_of (zip ''ABCDEFGHIJKLMNOPQRSTUVWXYZ'' ''abcdefghijklmnopqrstuvwxyz'') c of
        Some d \<Rightarrow> d
      | None \<Rightarrow> c)"

text \<open>\<open>toLowerCase\<close>, on the ASCII letters (every pattern the source searches for after
  lowering is ASCII or already lower case).\<close>

definition toLowerCase :: "string \<Rightarrow> string" where
  "toLowerCase s = map lower_char s"

definition is_space :: "char \<Rightarrow> bool" where
  "is_space c = (c \<in> set [CHR 0x09, CHR 0x0A, CHR 0x0B, CHR 0x0C, CHR 0x0D, CHR 0x20])"

definition trim :: "string \<Rightarrow> string" where
  "trim s = rev (dropWhile is_space (rev (dropWhile is_space s)))"

text \<open>\<open>s.replace(/[\[\]]/g, '')\<close>: every square bracket is removed.\<close>

definition strip_brackets :: "string \<Rightarrow> string" where
  "strip_brackets s = filter (\<lambda>c. c \<noteq> CHR ''['' \<and> c \<noteq> CHR '']'') s"

text \<open>\<open>s.replace(/\\/g, '\\\\')\<close>: every backslash is doubled.\<close>

definition double_backslashes :: "string \<Rightarrow> string" where
  "double_backslashes s = concat (map (\<lambda>c. if c = CHR 0x5C then [c, c] else [c]) s)"

text \<open>\<open>s.replace(/[:.]/g, '-')\<close>.\<close>

definition dash_colons_dots :: "string \<Rightarrow> string" where
  "dash_colons_dots s = map (\<lambda>c. if c = CHR '':'' \<or> c = CHR ''.'' then CHR ''-'' else c) s"

text \<open>
  \<open>s.replace(pat, rep)\<close> with a string pattern replaces the first occurrence only, and
  the replacement text is expanded: \<open>$$\<close> is a dollar sign, \<open>$&\<close> the match,
  \<open>$`\<close> the text before the match and \<open>$'\<close> the text after it.
\<close>

fun expand_replacement :: "string \<Rightarrow> string \<Rightarrow> string \<Rightarrow> string \<Rightarrow> string" where
  "expand_replacement pre matched post [] = []"
| "expand_replacement pre matched post [c] = [c]"
| "expand_replacement pre matched post (c # d # rest) =
     (if c = CHR ''$'' \<and> d = CHR ''$'' then CHR ''$'' # expand_replacement pre matched post rest
      else if c = CHR ''$'' \<and> d = CHR ''&'' then matched @ expand_replacement pre matched post rest
      else if c = CHR ''$'' \<and> d = CHR 0x60 then pre @ expand_replacement pre matched post rest
      else if c = CHR ''$'' \<and> d = CHR 0x27 then post @ expand_replacement pre matched post rest
      else c # expand_replacement pre matched post (d # rest))"

fun replace_from :: "string \<Rightarrow> string \<Rightarrow> string \<Rightarrow> string \<Rightarrow> string" where
  "replace_from pre [] pat rep =
     (if pat = [] then pre @ expand_replacement pre [] [] rep else pre)"
| "replace_from pre (c # cs) pat rep =
     (if startsWith (c # cs) pat
      then pre @ expand_replacement pre pat (drop (length pat) (c # cs)) rep
             @ drop (length pat) (c # cs)
      else replace_from (pre @ [c]) cs pat rep)"

definition replace :: "string \<Rightarrow> string \<Rightarrow> string \<Rightarrow> string" where
  "replace s pat rep = replace_from [] s pat rep"

text \<open>Decimal rendering of a number inside a template literal.\<close>

definition digit_char :: "nat \<Rightarrow> char" where
  "digit_char d = ''0123456789'' ! d"

fun show_nat :: "nat \<Rightarrow> string" where
  "show_nat n = (if n < 10 then [digit_char n] else show_nat (n div 10) @ [digit_char (n mod 10)])"

declare show_nat.simps [simp del]

definition show_int :: "int \<Rightarrow> string" where
  "show_int i = (if i < 0 then CHR ''-'' # show_nat (nat (- i)) else show_nat (nat i))"

text \<open>JavaScript truthiness of an optional string: \<open>undefined\<close>, \<open>null\<close> and the
  empty string are falsy.\<close>

fun truthy :: "string option \<Rightarrow> bool" where
  "truthy None = False"
| "truthy (Some s) = (s \<noteq> [])"

text \<open>\<open>a || b\<close> on an optional string with a string default.\<close>

fun or_else :: "string option \<Rightarrow> string \<Rightarrow> string" where
  "or_else None d = d"
| "or_else (Some s) d = (if s = [] then d else s)"

text \<open>\<open>xs.join(' ')\<close>.\<close>

fun join_spaces :: "string list \<Rightarrow> string" where
  "join_spaces [] = []"
| "join_spaces [a] = a"
| "join_spaces (a # b # rest) = a @ '' '' @ join_spaces (b # rest)"

section \<open>Node path functions\<close>

text \<open>
  The paths that \<open>main.js\<close> hands to \<open>path\<close> are \<open>RECORDINGS_DIR\<close>, an absolute
  normalised directory produced by \<open>path.resolve\<close>, and a file directly inside it. On
  these, \<open>path.join\<close> concatenates with the separator, \<open>path.dirname\<close> is the text before
  the last separator, \<open>path.extname\<close> the text from the last dot of the last segment, and
  \<open>path.basename\<close> the last segment without that extension.
\<close>

definition path_sep :: char where
  "path_sep = CHR 0x5C"

definition is_sep :: "char \<Rightarrow> bool" where
  "is_sep c = (c = CHR 0x5C \<or> c = CHR ''/'')"

definition last_segment :: "string \<Rightarrow> string" where
  "last_segment p = rev (takeWhile (\<lambda>c. \<not> is_sep c) (rev p))"

definition dirname :: "string \<Rightarrow> string" where
  "dirname p = rev (drop 1 (dropWhile (\<lambda>c. \<not> is_sep c) (rev p)))"

definition extname :: "string \<Rightarrow> string" where
  "extname p =
     (let seg = last_segment p; body = dropWhile (\<lambda>c. c \<noteq> CHR ''.'') (rev seg)
      in if body = [] \<or> tl body = [] then []
         else CHR ''.'' # rev (takeWhile (\<lambda>c. c \<noteq> CHR ''.'') (rev seg)))"

definition basename :: "string \<Rightarrow> string \<Rightarrow> string" where
  "basename p ext =
     (let seg = last_segment p
      in if ext \<noteq> [] \<and> length ext < length seg \<and> drop (length seg - length ext) seg = ext
         then take (length seg - length ext) seg else seg)"

definition path_join :: "string \<Rightarrow> string \<Rightarrow> string" where
  "path_join dir file = dir @ [path_sep] @ file"

section \<open>Data model\<close>

record rect =
  region_x :: int
  region_y :: int
  region_width :: int
  region_height :: int

text \<open>What \<open>getScreenRegion\<close> settles with: a rectangle, \<open>null\<close> (Escape or "Record Full
  Screen"), or a rejection when the overlay window is closed.\<close>

datatype selection = Region rect | NullRegion | Rejected string

record device =
  dev_name :: string
  altName :: "string option"
  isDefault :: bool

record options =
  region :: "string option"
  sourceType :: "string option"
  cameraName :: "string option"
  windowTitle :: "string option"
  framerate :: "string option"
  resolution :: "string option"
  audioDevice :: "string option"

record timeline_result =
  tl_success :: bool
  tl_timelineName :: "string option"
  tl_createdNewTimeline :: "bool option"
  tl_message :: "string option"
  tl_error :: "string option"

text \<open>The payload of a \<open>recording:completed\<close> message.\<close>

record completion =
  success :: bool
  filePath :: "string option"
  timelineResult :: "timeline_result option"
  error :: "string option"
  warning :: "string option"

text \<open>The listeners that the source attaches to a spawned process, with the variables
  each closure captures.\<close>

datatype close_listener =
    AudioShellClose string
  | LadderClose nat string
  | DirectClose string
  | StopClose

datatype error_listener =
    LadderError nat
  | DirectError

record proc =
  pid :: nat
  spawnfile :: string
  spawnargs :: "string list"
  killed :: bool
  exited :: bool
  stdin_written :: "string list"
  signals :: "string list"
  closeListeners :: "close_listener list"
  errorListener :: "error_listener option"
  stderrLadder :: "nat option"

text \<open>The variables shared by the closures of one regular-camera start.\<close>

record ladder =
  fallbackCommands :: "string list"
  currentAttempt :: nat
  ioErrorDetected :: bool
  outputPath :: string

text \<open>Deferred work: timers, the \<open>taskkill\<close> callback and pending promises.\<close>

datatype task =
    RetryTimer nat
  | ForceKillTimer
  | StdinGraceTimer
  | ObsFinalizeTimer "string option"
  | TaskkillExec nat
  | AudioLookup "string option" string string string string
  | TimelinePromise string "string option"

record pending =
  task_id :: nat
  delay_ms :: nat
  job :: task

text \<open>
  The module-level variables of \<open>main.js\<close>, the host constants, the process objects and
  ladders allocated so far, the deferred work, and what has been sent out.
\<close>

record state =
  mainWindow :: bool
  mainWindowDestroyed :: bool
  RECORDINGS_DIR :: string
  COMSPEC :: string
  recordingProcess :: "nat option"
  isRecording :: bool
  currentRecordingPath :: "string option"
  originalRecordingPath :: "string option"
  timelineAdded :: bool
  availableAudioDevices :: "device list"
  forceKillTimeout :: "nat option"
  procs :: "proc list"
  ladders :: "ladder list"
  tasks :: "pending list"
  nextTask :: nat
  emitted :: "completion list"
  timelineCalls :: "string list"

type_synonym files = "string \<Rightarrow> nat option"

section \<open>Device catalog\<close>

definition microphone_like :: "device \<Rightarrow> bool" where
  "microphone_like d =
     (str_includes (toLowerCase (dev_name d)) ''microphone'' \<or>
      str_includes (toLowerCase (dev_name d)) (''r'' @ [CHR 0xC3, CHR 0xA9] @ ''seau''))"

text \<open>\<open>getBestAudioDevice\<close>: the cached devices when there are any, else a fresh scan.\<close>

definition getBestAudioDevice :: "device list \<Rightarrow> device list \<Rightarrow> string option" where
  "getBestAudioDevice cached scanned =
     (let devices = (if cached \<noteq> [] then cached else scanned)
      in case devices of
           [] \<Rightarrow> None
         | first # _ \<Rightarrow>
             (case find microphone_like devices of
                Some preferredDevice \<Rightarrow> Some (dev_name preferredDevice)
              | None \<Rightarrow> Some (dev_name first)))"

definition getCorrectAudioDeviceName :: "device list \<Rightarrow> device list \<Rightarrow> string \<Rightarrow> string" where
  "getCorrectAudioDeviceName cached scanned displayName =
     (let devices = (if cached \<noteq> [] then cached else scanned)
      in case find (\<lambda>d. dev_name d = displayName) devices of
           Some deviceInfo \<Rightarrow>
             (case altName deviceInfo of
                Some alt \<Rightarrow> if alt \<noteq> [] then alt else displayName
              | None \<Rightarrow> displayName)
         | None \<Rightarrow> displayName)"

section \<open>Region validation\<close>


text \<open>\<open>Math.floor(n / 2) * 2\<close> on an integer.\<close>

definition floor_even :: "int \<Rightarrow> int" where
  "floor_even n = (n div 2) * 2"

section \<open>Timeline integration\<close>

text \<open>The answers of the host application to the calls that \<open>addRecordingToTimeline\<close>
  makes, in the order it makes them.\<close>

record resolve_api =
  api_throws :: "string option"
  getResolve_ok :: bool
  getMediaStorage_ok :: bool
  getMediaPool_ok :: bool
  clips_imported :: nat
  getCurrentProject_ok :: bool
  currentTimelineName :: "string option"
  localeNow :: string
  createTimeline_ok :: bool
  setCurrentTimeline_ok :: bool
  timecode_throws :: "string option"
  insertClips_ok :: bool
  dropClips_ok :: bool
  appendToTimeline_ok :: bool
  dropClipsEnd_ok :: bool

definition tl_failure :: "string \<Rightarrow> timeline_result" where
  "tl_failure msg =
     \<lparr>tl_success = False, tl_timelineName = None, tl_createdNewTimeline = None,
      tl_message = None, tl_error = Some msg\<rparr>"

definition tl_added :: "string \<Rightarrow> bool \<Rightarrow> timeline_result" where
  "tl_added nm created =
     \<lparr>tl_success = True, tl_timelineName = Some nm, tl_createdNewTimeline = Some created,
      tl_message = Some ((if created then ''Recording added to new timeline ''
                          else ''Recording added to existing timeline '') @ quoted nm),
      tl_error = None\<rparr>"

text \<open>Every path of \<open>addRecordingToTimeline\<close> returns an object: an exception inside
  is caught and becomes a failure result, so the promise always resolves.\<close>

definition addRecordingToTimeline :: "resolve_api \<Rightarrow> string \<Rightarrow> timeline_result" where
  "addRecordingToTimeline api path =
     (case api_throws api of
        Some msg \<Rightarrow> tl_failure msg
      | None \<Rightarrow>
          if \<not> getResolve_ok api then tl_failure ''Failed to connect to DaVinci Resolve''
          else if \<not> getMediaStorage_ok api then tl_failure ''Failed to get media storage''
          else if \<not> getMediaPool_ok api then tl_failure ''Failed to get media pool''
          else if clips_imported api = 0 then tl_failure ''Failed to import media file''
          else if \<not> getCurrentProject_ok api then tl_failure ''Failed to get current project''
          else (case currentTimelineName api of
                  None \<Rightarrow>
                    if \<not> createTimeline_ok api then tl_failure ''Failed to create timeline''
                    else if \<not> setCurrentTimeline_ok api
                    then tl_failure ''Failed to set current timeline''
                    else tl_added (''Screen Recording - '' @ localeNow api) True
                | Some nm \<Rightarrow>
                    (case timecode_throws api of
                       Some msg \<Rightarrow> tl_failure (''Timeline error: '' @ msg)
                     | None \<Rightarrow>
                         if insertClips_ok api \<or> dropClips_ok api \<or> appendToTimeline_ok api
                            \<or> dropClipsEnd_ok api
                         then tl_added nm False
                         else tl_failure
                                ''Failed to add clip to timeline using any available method'')))"

section \<open>Processes and deferred work\<close>

text \<open>
  A child process is an entry of \<open>procs\<close>, its handle the index. Work that Node runs later
  (a timer, the callback of \<open>exec\<close>, the continuation of a promise) is an entry of \<open>tasks\<close>
  with an id; it runs when the event \<open>Fire\<close> names that id, and \<open>clearTimeout\<close> removes it.
  A process started with \<open>shell: true\<close> has the host's command interpreter as \<open>spawnfile\<close>
  (\<open>COMSPEC\<close>; the plugin runs on Windows).
\<close>

definition add_task :: "nat \<Rightarrow> task \<Rightarrow> state \<Rightarrow> state" where
  "add_task delay j s =
     s\<lparr>tasks := tasks s @ [\<lparr>task_id = nextTask s, delay_ms = delay, job = j\<rparr>],
       nextTask := Suc (nextTask s)\<rparr>"

text \<open>\<open>clearTimeout\<close>.\<close>

definition clear_task :: "nat \<Rightarrow> state \<Rightarrow> state" where
  "clear_task i s = s\<lparr>tasks := filter (\<lambda>t. task_id t \<noteq> i) (tasks s)\<rparr>"

definition new_proc :: "nat \<Rightarrow> string \<Rightarrow> string list \<Rightarrow> close_listener list
    \<Rightarrow> error_listener option \<Rightarrow> nat option \<Rightarrow> proc" where
  "new_proc h file args cl el sl =
     \<lparr>pid = Suc h, spawnfile = file, spawnargs = file # args, killed = False,
      exited = False, stdin_written = [], signals = [], closeListeners = cl,
      errorListener = el, stderrLadder = sl\<rparr>"

text \<open>\<open>recordingProcess = spawn(command, [], { shell: true })\<close> followed by the \<open>on\<close> calls
  that attach the listeners: the host shell runs the command string.\<close>

definition spawn_shell :: "string \<Rightarrow> close_listener list \<Rightarrow> error_listener option
    \<Rightarrow> nat option \<Rightarrow> state \<Rightarrow> state" where
  "spawn_shell cmd cl el sl s =
     s\<lparr>procs := procs s @ [new_proc (length (procs s)) (COMSPEC s)
                              [''/d'', ''/s'', ''/c'', quoted cmd] cl el sl],
       recordingProcess := Some (length (procs s))\<rparr>"

text \<open>\<open>recordingProcess = spawn(getFFmpegPath(), args)\<close>.\<close>

definition spawn_direct :: "string list \<Rightarrow> close_listener list \<Rightarrow> error_listener option
    \<Rightarrow> state \<Rightarrow> state" where
  "spawn_direct args cl el s =
     s\<lparr>procs := procs s @ [new_proc (length (procs s)) ''ffmpeg'' args cl el None],
       recordingProcess := Some (length (procs s))\<rparr>"

text \<open>\<open>mainWindow.webContents.send('recording:completed', c)\<close>; nothing arrives once the
  window is destroyed.\<close>

definition send_completed :: "completion \<Rightarrow> state \<Rightarrow> state" where
  "send_completed c s = (if mainWindowDestroyed s then s else s\<lparr>emitted := emitted s @ [c]\<rparr>)"

definition failure_completion :: "string option \<Rightarrow> string \<Rightarrow> completion" where
  "failure_completion fp msg =
     \<lparr>success = False, filePath = fp, timelineResult = None, error = Some msg, warning = None\<rparr>"

section \<open>Command building\<close>

definition encode_opts :: string where
  "encode_opts = '' -c:v libx264 -preset ultrafast -crf 22 -pix_fmt yuv420p''"

definition cleanCameraName_of :: "string \<Rightarrow> string" where
  "cleanCameraName_of nm = trim (strip_brackets nm)"

definition is_obs :: "string \<Rightarrow> bool" where
  "is_obs clean = str_includes (toLowerCase clean) ''obs virtual''"

text \<open>The input token \<open>video="${cleanCameraName}"\<close>.\<close>

definition video_input :: "string \<Rightarrow> string" where
  "video_input clean = ''video='' @ quoted clean"

definition camera_args :: "options \<Rightarrow> string \<Rightarrow> string list" where
  "camera_args opts clean =
     (if is_obs clean
      then [''-f'', ''dshow'', ''-framerate'', ''60'', ''-i'', video_input clean]
      else [''-f'', ''dshow'', ''-framerate'', or_else (framerate opts) ''30'',
            ''-video_size'', ''1920x1080'', ''-i'', video_input clean])"

definition window_args :: "options \<Rightarrow> string \<Rightarrow> string list" where
  "window_args opts title =
     [''-f'', ''gdigrab'', ''-framerate'', or_else (framerate opts) ''30'',
      ''-i'', ''title='' @ quoted title]"

definition region_args :: "options \<Rightarrow> rect \<Rightarrow> string list" where
  "region_args opts r =
     [''-f'', ''gdigrab'',
      ''-video_size'',
      show_int (floor_even (region_width r)) @ ''x'' @ show_int (floor_even (region_height r)),
      ''-framerate'', or_else (framerate opts) ''30'',
      ''-offset_x'', show_int (region_x r),
      ''-offset_y'', show_int (region_y r),
      ''-i'', ''desktop'', ''-draw_mouse'', ''1'', ''-probesize'', ''10M'',
      ''-analyzeduration'', ''0'']"

definition desktop_args :: "options \<Rightarrow> string list" where
  "desktop_args opts =
     [''-f'', ''gdigrab'', ''-framerate'', or_else (framerate opts) ''30'', ''-i'', ''desktop'']"

definition too_small_error :: "rect \<Rightarrow> string" where
  "too_small_error r =
     ''Selected region is too small ('' @ show_int (region_width r) @ ''x''
       @ show_int (region_height r) @ ''). Minimum size is 16x16 pixels.''"

text \<open>The input arguments of a source that is not a camera: a titled window, else the
  selected region after the size check, else the whole desktop.\<close>

definition source_args :: "options \<Rightarrow> rect option \<Rightarrow> string + string list" where
  "source_args opts reg =
     (if sourceType opts = Some ''window'' \<and> truthy (windowTitle opts)
      then Inr (window_args opts (or_else (windowTitle opts) []))
      else case reg of
             Some r \<Rightarrow>
               if region_width r < 16 \<or> region_height r < 16 then Inl (too_small_error r)
               else Inr (region_args opts r)
           | None \<Rightarrow> Inr (desktop_args opts))"

definition audio_shell_command :: "string \<Rightarrow> string list \<Rightarrow> string \<Rightarrow> string" where
  "audio_shell_command audioDeviceName args out =
     ''ffmpeg -f dshow -i audio='' @ quoted audioDeviceName @ '' '' @ join_spaces args
       @ encode_opts @ '' -c:a aac -b:a 128k '' @ quoted out"

definition scale_args :: "options \<Rightarrow> rect option \<Rightarrow> string list" where
  "scale_args opts reg =
     (if truthy (resolution opts) \<and> resolution opts \<noteq> Some ''desktop'' \<and> reg = None
      then [''-vf'', ''scale='' @ or_else (resolution opts) []] else [])"

definition direct_args :: "options \<Rightarrow> rect option \<Rightarrow> string list \<Rightarrow> string \<Rightarrow> string list" where
  "direct_args opts reg args out =
     args @ [''-c:v'', ''libx264'', ''-preset'', ''ultrafast'', ''-crf'', ''22'',
             ''-pix_fmt'', ''yuv420p''] @ scale_args opts reg @ [out]"

definition audio_input :: "string option \<Rightarrow> string" where
  "audio_input audio =
     (case audio of
        Some a \<Rightarrow> '' -f dshow -i audio='' @ quoted (double_backslashes a)
      | None \<Rightarrow> [])"

definition audio_codec :: "string option \<Rightarrow> string" where
  "audio_codec audio = (case audio of Some a \<Rightarrow> '' -c:a aac -b:a 128k'' | None \<Rightarrow> [])"

definition obs_command :: "string \<Rightarrow> string option \<Rightarrow> string \<Rightarrow> string \<Rightarrow> string" where
  "obs_command clean audio res out =
     ''ffmpeg -f dshow -framerate 60 -i '' @ video_input clean @ audio_input audio
       @ encode_opts @ audio_codec audio @ '' -flush_packets 1 -vf scale='' @ res
       @ '' '' @ quoted out"

definition camera_command :: "string \<Rightarrow> string option \<Rightarrow> string \<Rightarrow> string option \<Rightarrow> string
    \<Rightarrow> string \<Rightarrow> string" where
  "camera_command fr video_size clean audio scale out =
     ''ffmpeg -f dshow -framerate '' @ fr
       @ (case video_size of Some v \<Rightarrow> '' -video_size '' @ v | None \<Rightarrow> [])
       @ '' -i '' @ video_input clean @ audio_input audio
       @ encode_opts @ audio_codec audio @ '' -flush_packets 1 '' @ scale
       @ '' '' @ quoted out"

definition scale_unless_hd :: "string \<Rightarrow> string" where
  "scale_unless_hd targetResolution =
     (if targetResolution \<noteq> ''1920x1080'' then ''-vf scale='' @ targetResolution else [])"

text \<open>The three candidates of a regular camera: 1920x1080 input, no declared input size,
  1280x720 input; with the audio input when a device was found.\<close>

definition build_fallbackCommands :: "string \<Rightarrow> string \<Rightarrow> string \<Rightarrow> string option \<Rightarrow> string
    \<Rightarrow> string list" where
  "build_fallbackCommands fr targetResolution clean audioDev out =
     (let audio = (if truthy audioDev then audioDev else None)
      in [camera_command fr (Some ''1920x1080'') clean audio (scale_unless_hd targetResolution) out,
          camera_command fr None clean audio (scale_unless_hd targetResolution) out,
          camera_command fr (Some ''1280x720'') clean audio (''-vf scale='' @ targetResolution) out])"

section \<open>startRecording\<close>

text \<open>
  \<open>startRecording\<close> is an \<open>async\<close> function. Its suspension points (the audio device scan,
  the wait for a region selection) are folded into one step: what they deliver is read from
  the \<open>start_env\<close> argument, and no other event is interleaved before the function has set
  \<open>isRecording\<close>. \<open>spawn\<close> is taken not to throw; a process that cannot be started is
  reported by its \<open>error\<close> event, as Node does for a missing executable.
\<close>

record start_env =
  now_iso :: string
  selected :: selection
  scanned_audio :: "device list"

datatype start_result =
    StartSuccess string
  | StartSuccessShell string
  | StartFailure string
  | StartThrew string

definition make_outputPath :: "string \<Rightarrow> string \<Rightarrow> string" where
  "make_outputPath dir stamp =
     path_join dir (''screen-recording-'' @ take 19 (dash_colons_dots stamp) @ ''.mp4'')"

definition resolve_region :: "options \<Rightarrow> start_env \<Rightarrow> string + rect option" where
  "resolve_region opts env =
     (if region opts = Some ''selection''
      then case selected env of
             Region r \<Rightarrow> Inr (Some r)
           | NullRegion \<Rightarrow> Inl ''Region selection cancelled''
           | Rejected msg \<Rightarrow> Inl (''Region selection failed: '' @ msg)
      else Inr None)"

definition mark_recording :: "string \<Rightarrow> state \<Rightarrow> state" where
  "mark_recording out s =
     s\<lparr>isRecording := True, currentRecordingPath := Some out,
       originalRecordingPath := Some out\<rparr>"

text \<open>A camera start. The virtual camera is spawned at once, with no listener attached;
  a regular camera only has its audio lookup pending when \<open>startRecording\<close> returns.\<close>

definition start_camera :: "options \<Rightarrow> start_env \<Rightarrow> string \<Rightarrow> string \<Rightarrow> state \<Rightarrow> state" where
  "start_camera opts env out clean s =
     (let best = getBestAudioDevice (availableAudioDevices s) (scanned_audio env)
      in if is_obs clean
         then (let chosen = (if truthy (audioDevice opts) then audioDevice opts else best);
                   audio = (case chosen of
                              Some a \<Rightarrow>
                                if a \<noteq> []
                                then Some (getCorrectAudioDeviceName (availableAudioDevices s)
                                             (scanned_audio env) a)
                                else None
                            | None \<Rightarrow> None)
               in spawn_shell (obs_command clean audio (or_else (resolution opts) ''1920x1080'') out)
                    [] None None s)
         else add_task 0 (AudioLookup best (or_else (framerate opts) ''30'')
                            (or_else (resolution opts) ''1920x1080'') clean out) s)"

definition startRecording :: "options \<Rightarrow> start_env \<Rightarrow> state \<Rightarrow> start_result \<times> state" where
  "startRecording opts env s =
     (if isRecording s then (StartFailure ''Recording already in progress'', s)
      else
        let s0 = s\<lparr>timelineAdded := False\<rparr>;
            out = make_outputPath (RECORDINGS_DIR s) (now_iso env)
        in case resolve_region opts env of
             Inl err \<Rightarrow> (StartFailure err, s0)
           | Inr reg \<Rightarrow>
               if sourceType opts = Some ''camera''
               then (case cameraName opts of
                       None \<Rightarrow> (StartThrew ''TypeError'', s0)
                     | Some nm \<Rightarrow>
                         (StartSuccess out,
                          mark_recording out (start_camera opts env out (cleanCameraName_of nm) s0)))
               else (case source_args opts reg of
                       Inl err \<Rightarrow> (StartFailure err, s0)
                     | Inr args \<Rightarrow>
                         if truthy (audioDevice opts)
                         then (StartSuccessShell out,
                               mark_recording out
                                 (spawn_shell
                                    (audio_shell_command (or_else (audioDevice opts) []) args out)
                                    [AudioShellClose out] None None s0))
                         else (StartSuccess out,
                               mark_recording out
                                 (spawn_direct (direct_args opts reg args out)
                                    [DirectClose out] (Some DirectError) s0))))"

section \<open>The camera fallback ladder\<close>

definition js_or :: "string option \<Rightarrow> string option \<Rightarrow> string option" where
  "js_or a b = (if truthy a then a else b)"

definition show_code :: "int option \<Rightarrow> string" where
  "show_code code = (case code of None \<Rightarrow> ''null'' | Some c \<Rightarrow> show_int c)"

definition show_signal :: "string option \<Rightarrow> string" where
  "show_signal signal = (case signal of None \<Rightarrow> ''null'' | Some g \<Rightarrow> g)"

text \<open>The output file of attempt \<open>n\<close>: the original path for the first attempt, a
  suffixed name beside it for a later one.\<close>

definition attempt_path :: "string \<Rightarrow> nat \<Rightarrow> string" where
  "attempt_path out n =
     (if n > 0
      then (let ext = extname out; base = basename out ext; dir = dirname out
            in path_join dir (base @ ''_attempt'' @ show_nat n @ ext))
      else out)"

definition all_failed_error :: string where
  "all_failed_error =
     ''Camera recording failed: All attempts failed. The camera may be in use by another ''
     @ ''application. Try closing apps like Discord, Zoom, or OBS that might be using the ''
     @ ''camera, or use OBS Virtual Camera instead.''"

definition reset_session :: "state \<Rightarrow> state" where
  "reset_session s = s\<lparr>isRecording := False, recordingProcess := None, currentRecordingPath := None\<rparr>"

definition set_ladder :: "nat \<Rightarrow> ladder \<Rightarrow> state \<Rightarrow> state" where
  "set_ladder L lad s = s\<lparr>ladders := (ladders s)[L := lad]\<rparr>"

definition attemptRecording :: "nat \<Rightarrow> state \<Rightarrow> state" where
  "attemptRecording L s =
     (let lad = ladders s ! L; n = currentAttempt lad
      in if n \<ge> length (fallbackCommands lad)
         then (let s1 = reset_session s
               in if mainWindow s
                  then send_completed (failure_completion (currentRecordingPath s) all_failed_error) s1
                  else s1)
         else (let cameraCommand = fallbackCommands lad ! n;
                   currentOutputPath = attempt_path (outputPath lad) n;
                   modifiedCommand =
                     replace (replace cameraCommand (outputPath lad) currentOutputPath)
                       ''ffmpeg'' ''ffmpeg -y''
               in set_ladder L (lad\<lparr>ioErrorDetected := False\<rparr>)
                    (spawn_shell modifiedCommand [LadderClose L currentOutputPath]
                       (Some (LadderError L)) (Some L) s)))"

text \<open>The guarded hand-over to the timeline: the flag is set, the collaborator is called,
  and the completion message waits for its promise.\<close>

definition add_to_timeline :: "string \<Rightarrow> string option \<Rightarrow> state \<Rightarrow> state" where
  "add_to_timeline path warn s =
     add_task 0 (TimelinePromise path warn)
       (s\<lparr>timelineAdded := True, timelineCalls := timelineCalls s @ [path]\<rparr>)"

definition wasManuallyStopped :: "int option \<Rightarrow> string option \<Rightarrow> bool" where
  "wasManuallyStopped code signal =
     (signal = Some ''SIGTERM'' \<or> signal = Some ''SIGKILL''
      \<or> (signal = None \<and> code \<noteq> Some 0 \<and> code \<noteq> None)
      \<or> (signal = None \<and> code = Some 1))"

definition wasStopped :: "int option \<Rightarrow> string option \<Rightarrow> bool" where
  "wasStopped code signal = (signal = Some ''SIGTERM'' \<or> (signal = None \<and> code = Some 1))"

text \<open>\<open>fs.existsSync(p)\<close> and \<open>fs.statSync(p).size > n\<close>; a missing file makes
  \<open>statSync\<close> throw, which every caller catches.\<close>

definition file_larger :: "files \<Rightarrow> string \<Rightarrow> nat \<Rightarrow> bool" where
  "file_larger fs p n = (case fs p of Some sz \<Rightarrow> sz > n | None \<Rightarrow> False)"

text \<open>\<open>currentAttempt++; setTimeout(attemptRecording, 1000)\<close>.\<close>

definition ladder_retry :: "nat \<Rightarrow> state \<Rightarrow> state" where
  "ladder_retry L s =
     add_task 1000 (RetryTimer L)
       (set_ladder L ((ladders s ! L)\<lparr>currentAttempt := Suc (currentAttempt (ladders s ! L))\<rparr>) s)"

definition ladder_close :: "nat \<Rightarrow> string \<Rightarrow> int option \<Rightarrow> string option \<Rightarrow> files \<Rightarrow> state
    \<Rightarrow> state" where
  "ladder_close L currentOutputPath code signal fs s =
     (if wasManuallyStopped code signal
      then (let completedFilePath = js_or (currentRecordingPath s) (originalRecordingPath s);
                s1 = reset_session s
            in if mainWindow s
               then (let isValidRecording =
                           (wasStopped code signal \<and> truthy completedFilePath
                            \<and> file_larger fs (or_else completedFilePath []) 1024)
                     in if isValidRecording \<and> \<not> timelineAdded s
                        then add_to_timeline (or_else completedFilePath [])
                               (Some ''Camera recording stopped by user'') s1
                        else send_completed
                               (failure_completion None
                                  (if wasStopped code signal
                                   then ''Camera recording stopped but no valid file created''
                                   else ''Camera recording failed with exit code ''
                                          @ show_code code @ '', signal: '' @ show_signal signal))
                               s1)
               else s1)
      else if code = Some 0 \<and> \<not> ioErrorDetected (ladders s ! L)
              \<and> file_larger fs currentOutputPath 0
      then (let s1 = reset_session s
            in if mainWindow s \<and> \<not> timelineAdded s
               then add_to_timeline currentOutputPath None s1 else s1)
      else ladder_retry L s)"

definition ladder_error :: "nat \<Rightarrow> string \<Rightarrow> state \<Rightarrow> state" where
  "ladder_error L msg s =
     (let lad = ladders s ! L; n = Suc (currentAttempt lad);
          s1 = set_ladder L (lad\<lparr>currentAttempt := n\<rparr>) s
      in if n \<ge> length (fallbackCommands lad)
         then (let s2 = reset_session s1
               in if mainWindow s
                  then send_completed
                         (failure_completion (currentRecordingPath s)
                            (''Camera recording failed: All attempts failed with errors. '' @ msg))
                         s2
                  else s2)
         else add_task 1000 (RetryTimer L) s1)"

definition ladder_stderr :: "nat \<Rightarrow> string \<Rightarrow> state \<Rightarrow> state" where
  "ladder_stderr L chunk s =
     (let stderrOutput = trim chunk
      in if stderrOutput \<noteq> []
            \<and> (str_includes stderrOutput ''Error during demuxing: I/O error''
                 \<or> str_includes stderrOutput ''No filtered frames for output stream'')
         then set_ladder L ((ladders s ! L)\<lparr>ioErrorDetected := True\<rparr>) s
         else s)"

section \<open>Screen, window and audio-shell recordings\<close>

definition direct_close :: "string \<Rightarrow> int option \<Rightarrow> string option \<Rightarrow> files \<Rightarrow> state \<Rightarrow> state" where
  "direct_close out code signal fs s =
     (let s1 = s\<lparr>isRecording := False, recordingProcess := None\<rparr>
      in if code = Some 0 \<and> mainWindow s \<and> \<not> timelineAdded s
         then add_to_timeline out None s1
         else if code \<noteq> None \<and> code \<noteq> Some 0
         then (if file_larger fs out 1024
               then (if mainWindow s \<and> \<not> timelineAdded s
                     then add_to_timeline out
                            (Some (''Recording completed with exit code '' @ show_code code
                                    @ '' (normal for cameras)'')) s1
                     else s1)
               else if mainWindow s
               then send_completed
                      (failure_completion None
                         (''FFmpeg recording failed with exit code '' @ show_code code)) s1
               else s1)
         else s1)"

definition direct_error :: "string \<Rightarrow> state \<Rightarrow> state" where
  "direct_error msg s =
     (let s1 = s\<lparr>isRecording := False, recordingProcess := None\<rparr>
      in if mainWindow s
         then send_completed (failure_completion None (''Recording process error: '' @ msg)) s1
         else s1)"

definition audio_shell_close :: "string \<Rightarrow> state \<Rightarrow> state" where
  "audio_shell_close out s =
     (let s1 = reset_session s
      in if mainWindow s \<and> \<not> timelineAdded s then add_to_timeline out None s1 else s1)"

section \<open>stopRecording\<close>

datatype stop_result = StopSuccess | StopFailure string

definition isShellProcess :: "proc \<Rightarrow> bool" where
  "isShellProcess p =
     (''shell'' \<in> set (spawnargs p) \<or> str_includes (spawnfile p) ''cmd.exe''
      \<or> str_includes (spawnfile p) ''powershell.exe'')"

definition set_proc :: "nat \<Rightarrow> proc \<Rightarrow> state \<Rightarrow> state" where
  "set_proc h p s = s\<lparr>procs := (procs s)[h := p]\<rparr>"

definition write_stdin :: "nat \<Rightarrow> string \<Rightarrow> state \<Rightarrow> state" where
  "write_stdin h txt s =
     set_proc h ((procs s ! h)\<lparr>stdin_written := stdin_written (procs s ! h) @ [txt]\<rparr>) s"

text \<open>\<open>process.kill(sig)\<close>: the signal is delivered, and \<open>killed\<close> set, only while the
  process is running.\<close>

definition kill_proc :: "nat \<Rightarrow> string \<Rightarrow> state \<Rightarrow> state" where
  "kill_proc h sig s =
     (if h < length (procs s) \<and> \<not> exited (procs s ! h)
      then set_proc h ((procs s ! h)\<lparr>killed := True, signals := signals (procs s ! h) @ [sig]\<rparr>) s
      else s)"

definition add_close_listener :: "nat \<Rightarrow> close_listener \<Rightarrow> state \<Rightarrow> state" where
  "add_close_listener h l s =
     set_proc h ((procs s ! h)\<lparr>closeListeners := closeListeners (procs s ! h) @ [l]\<rparr>) s"

definition processOBSRecording :: "state \<Rightarrow> state" where
  "processOBSRecording s =
     add_task 500 (ObsFinalizeTimer (js_or (currentRecordingPath s) (originalRecordingPath s)))
       (s\<lparr>recordingProcess := None, isRecording := False, currentRecordingPath := None,
          originalRecordingPath := None\<rparr>)"

definition handleSuccessfulOBSKill :: "state \<Rightarrow> state" where
  "handleSuccessfulOBSKill s =
     processOBSRecording
       (case forceKillTimeout s of
          Some i \<Rightarrow> (clear_task i s)\<lparr>forceKillTimeout := None\<rparr>
        | None \<Rightarrow> s)"

definition stopRecording :: "state \<Rightarrow> stop_result \<times> state" where
  "stopRecording s =
     (case recordingProcess s of
        None \<Rightarrow> (StopFailure ''No recording in progress'', s)
      | Some h \<Rightarrow>
          if \<not> isRecording s then (StopFailure ''No recording in progress'', s)
          else (let p = procs s ! h;
                    s1 = (if isShellProcess p \<and> pid p \<noteq> 0
                          then add_close_listener h StopClose
                                 (if \<not> exited p
                                  then add_task 2000 StdinGraceTimer (write_stdin h ''q'' s)
                                  else add_task 0 (TaskkillExec (pid p)) s)
                          else if \<not> exited p then write_stdin h ''q'' s
                          else kill_proc h ''SIGTERM'' s)
                in (StopSuccess,
                    (add_task 3000 ForceKillTimer s1)\<lparr>forceKillTimeout := Some (nextTask s1)\<rparr>)))"

text \<open>The listener that \<open>stopRecording\<close> adds to a shell process.\<close>

definition stop_close :: "int option \<Rightarrow> string option \<Rightarrow> state \<Rightarrow> state" where
  "stop_close code signal s =
     (if signal = Some ''SIGTERM'' \<or> (signal = None \<and> (code = Some 0 \<or> code = Some 1))
      then processOBSRecording s else s)"

text \<open>The 2 second timer after the quit key was written to a shell process.\<close>

definition stdin_grace_fire :: "state \<Rightarrow> state" where
  "stdin_grace_fire s =
     (case recordingProcess s of
        Some h \<Rightarrow>
          if \<not> killed (procs s ! h) then add_task 0 (TaskkillExec (pid (procs s ! h))) s else s
      | None \<Rightarrow> s)"

text \<open>The callback of \<open>exec('taskkill /F /T /PID ...')\<close>: on an error the current process
  gets SIGTERM (a null handle makes the callback throw, with no further effect).\<close>

definition taskkill_done :: "string option \<Rightarrow> state \<Rightarrow> state" where
  "taskkill_done err s =
     (case err of
        Some msg \<Rightarrow> (case recordingProcess s of Some h \<Rightarrow> kill_proc h ''SIGTERM'' s | None \<Rightarrow> s)
      | None \<Rightarrow> handleSuccessfulOBSKill s)"

text \<open>The 3 second force-kill timer.\<close>

definition force_kill_fire :: "state \<Rightarrow> state" where
  "force_kill_fire s =
     (case recordingProcess s of
        Some h \<Rightarrow>
          if \<not> killed (procs s ! h)
          then (kill_proc h ''SIGKILL'' s)
                 \<lparr>recordingProcess := None, isRecording := False, currentRecordingPath := None,
                  originalRecordingPath := None\<rparr>
          else s
      | None \<Rightarrow> s)"

text \<open>The 500 ms timer of \<open>processOBSRecording\<close>.\<close>

definition obs_finalize :: "string option \<Rightarrow> files \<Rightarrow> state \<Rightarrow> state" where
  "obs_finalize completedFilePath fs s =
     (if truthy completedFilePath \<and> mainWindow s
      then (let p = or_else completedFilePath []
            in case fs p of
                 None \<Rightarrow>
                   send_completed
                     (failure_completion None
                        ''OBS Virtual Camera recording stopped but no file was created'') s
               | Some sz \<Rightarrow>
                   if sz > 1024
                   then (if \<not> timelineAdded s
                         then add_to_timeline p
                                (Some ''OBS Virtual Camera recording stopped by user'') s
                         else s)
                   else send_completed
                          (failure_completion None
                             ''OBS Virtual Camera recording stopped but file is invalid or empty'')
                          s)
      else s)"

section \<open>Events\<close>

text \<open>
  The program is event driven: a run is a list of events, each handled to completion by
  \<open>step\<close>. Events that name a process or a task that does not exist leave the state
  unchanged. \<open>getBestAudioDevice\<close> and \<open>addRecordingToTimeline\<close> catch their own errors and
  always resolve, so their promises have a continuation and no rejection branch.
\<close>

definition audio_lookup_done :: "string option \<Rightarrow> string \<Rightarrow> string \<Rightarrow> string \<Rightarrow> string \<Rightarrow> state
    \<Rightarrow> state" where
  "audio_lookup_done audioDev fr targetResolution clean out s =
     attemptRecording (length (ladders s))
       (s\<lparr>ladders := ladders s
            @ [\<lparr>fallbackCommands = build_fallbackCommands fr targetResolution clean audioDev out,
                currentAttempt = 0, ioErrorDetected = False, outputPath = out\<rparr>]\<rparr>)"

definition timeline_done :: "string \<Rightarrow> string option \<Rightarrow> resolve_api \<Rightarrow> state \<Rightarrow> state" where
  "timeline_done path warn api s =
     send_completed
       \<lparr>success = True, filePath = Some path,
        timelineResult = Some (addRecordingToTimeline api path), error = None, warning = warn\<rparr> s"

record fire_env =
  fs_view :: files
  resolve_answers :: resolve_api
  taskkill_error :: "string option"

fun run_task :: "task \<Rightarrow> fire_env \<Rightarrow> state \<Rightarrow> state" where
  "run_task (RetryTimer L) env s = attemptRecording L s"
| "run_task ForceKillTimer env s = force_kill_fire s"
| "run_task StdinGraceTimer env s = stdin_grace_fire s"
| "run_task (ObsFinalizeTimer p) env s = obs_finalize p (fs_view env) s"
| "run_task (TaskkillExec n) env s = taskkill_done (taskkill_error env) s"
| "run_task (AudioLookup a fr res clean out) env s = audio_lookup_done a fr res clean out s"
| "run_task (TimelinePromise p w) env s = timeline_done p w (resolve_answers env) s"

fun run_close_listener :: "int option \<Rightarrow> string option \<Rightarrow> files \<Rightarrow> close_listener \<Rightarrow> state
    \<Rightarrow> state" where
  "run_close_listener code signal fs (AudioShellClose out) s = audio_shell_close out s"
| "run_close_listener code signal fs (LadderClose L cur) s = ladder_close L cur code signal fs s"
| "run_close_listener code signal fs (DirectClose out) s = direct_close out code signal fs s"
| "run_close_listener code signal fs StopClose s = stop_close code signal s"

text \<open>The \<open>close\<close> event of a process: its listeners run in the order they were added.\<close>

definition proc_close :: "nat \<Rightarrow> int option \<Rightarrow> string option \<Rightarrow> files \<Rightarrow> state \<Rightarrow> state" where
  "proc_close h code signal fs s =
     (if h < length (procs s) \<and> \<not> exited (procs s ! h)
      then fold (run_close_listener code signal fs) (closeListeners (procs s ! h))
             (set_proc h ((procs s ! h)\<lparr>exited := True\<rparr>) s)
      else s)"

definition proc_error :: "nat \<Rightarrow> string \<Rightarrow> state \<Rightarrow> state" where
  "proc_error h msg s =
     (if h < length (procs s)
      then (case errorListener (procs s ! h) of
              Some (LadderError L) \<Rightarrow> ladder_error L msg s
            | Some DirectError \<Rightarrow> direct_error msg s
            | None \<Rightarrow> s)
      else s)"

definition proc_stderr :: "nat \<Rightarrow> string \<Rightarrow> state \<Rightarrow> state" where
  "proc_stderr h chunk s =
     (if h < length (procs s) \<and> \<not> exited (procs s ! h)
      then (case stderrLadder (procs s ! h) of Some L \<Rightarrow> ladder_stderr L chunk s | None \<Rightarrow> s)
      else s)"

datatype event =
    Start options start_env
  | Stop
  | Close nat "int option" "string option" files
  | ProcError nat string
  | Stderr nat string
  | Fire nat fire_env

fun step :: "event \<Rightarrow> state \<Rightarrow> state" where
  "step (Start opts env) s = snd (startRecording opts env s)"
| "step Stop s = snd (stopRecording s)"
| "step (Close h code signal fs) s = proc_close h code signal fs s"
| "step (ProcError h msg) s = proc_error h msg s"
| "step (Stderr h chunk) s = proc_stderr h chunk s"
| "step (Fire i env) s =
     (case find (\<lambda>t. task_id t = i) (tasks s) of
        None \<Rightarrow> s
      | Some t \<Rightarrow> run_task (job t) env (clear_task i s))"

definition run :: "event list \<Rightarrow> state \<Rightarrow> state" where
  "run evs s = fold step evs s"

text \<open>The module state when the application is ready: the window exists, nothing records.\<close>

definition initial :: "string \<Rightarrow> string \<Rightarrow> device list \<Rightarrow> state" where
  "initial dir shell devs =
     \<lparr>mainWindow = True, mainWindowDestroyed = False, RECORDINGS_DIR = dir, COMSPEC = shell,
      recordingProcess = None, isRecording = False, currentRecordingPath = None,
      originalRecordingPath = None, timelineAdded = False, availableAudioDevices = devs,
      forceKillTimeout = None, procs = [], ladders = [], tasks = [], nextTask = 0,
      emitted = [], timelineCalls = []\<rparr>"

section \<open>Observing a run\<close>



definition is_promise :: "pending \<Rightarrow> bool" where
  "is_promise t = (case job t of TimelinePromise p w \<Rightarrow> True | _ \<Rightarrow> False)"





text \<open>The processes that a ladder has spawned and the retry timers it has pending; the
  references from processes and timers to ladders; the bookkeeping that bounds the attempts
  of a ladder.\<close>

definition spawned :: "nat \<Rightarrow> state \<Rightarrow> nat" where
  "spawned L s = length (filter (\<lambda>p. stderrLadder p = Some L) (procs s))"

definition retries :: "nat \<Rightarrow> state \<Rightarrow> nat" where
  "retries L s = length (filter (\<lambda>t. job t = RetryTimer L) (tasks s))"

definition proc_refs_ok :: "nat \<Rightarrow> proc \<Rightarrow> bool" where
  "proc_refs_ok n p =
     ((\<forall>L cur. LadderClose L cur \<in> set (closeListeners p) \<longrightarrow> L < n)
      \<and> (\<forall>L. errorListener p = Some (LadderError L) \<longrightarrow> L < n)
      \<and> (\<forall>L. stderrLadder p = Some L \<longrightarrow> L < n))"

definition refs_ok :: "state \<Rightarrow> bool" where
  "refs_ok s =
     ((\<forall>p \<in> set (procs s). proc_refs_ok (length (ladders s)) p)
      \<and> (\<forall>t \<in> set (tasks s). \<forall>L. job t = RetryTimer L \<longrightarrow> L < length (ladders s)))"

definition ladder_ok :: "state \<Rightarrow> nat \<Rightarrow> bool" where
  "ladder_ok s L =
     (spawned L s + retries L s \<le> Suc (currentAttempt (ladders s ! L))
      \<and> spawned L s \<le> 3
      \<and> length (fallbackCommands (ladders s ! L)) = 3)"

definition sound :: "state \<Rightarrow> bool" where
  "sound s = (refs_ok s \<and> (\<forall>L < length (ladders s). ladder_ok s L))"




section \<open>Scenarios\<close>

text \<open>Concrete requests, clock readings and hosts on which the properties below are
  exercised.\<close>

definition desktop_opts :: options where
  "desktop_opts = \<lparr>region = None, sourceType = Some ''desktop'', cameraName = None,
     windowTitle = None, framerate = Some ''30'', resolution = None, audioDevice = None\<rparr>"

definition camera_opts :: options where
  "camera_opts = \<lparr>region = None, sourceType = Some ''camera'', cameraName = Some ''Cam'',
     windowTitle = None, framerate = Some ''30'', resolution = None, audioDevice = None\<rparr>"




definition clock0 :: start_env where
  "clock0 = \<lparr>now_iso = ''2025-01-02T03:04:05.678Z'', selected = NullRegion, scanned_audio = []\<rparr>"

definition host0 :: state where
  "host0 = initial ''V'' ''cmd.exe'' []"



definition clock1 :: start_env where
  "clock1 = \<lparr>now_iso = ''2025-01-02T03:04:07.900Z'', selected = NullRegion, scanned_audio = []\<rparr>"

definition no_files :: files where
  "no_files = (\<lambda>p. None)"

text \<open>A file system in which every path holds 4096 bytes.\<close>

definition full_files :: files where
  "full_files = (\<lambda>p. Some 4096)"

text \<open>The host application is not reachable: every timeline addition fails.\<close>

definition resolve_down :: resolve_api where
  "resolve_down = \<lparr>api_throws = None, getResolve_ok = False, getMediaStorage_ok = False,
     getMediaPool_ok = False, clips_imported = 0, getCurrentProject_ok = False,
     currentTimelineName = None, localeNow = [], createTimeline_ok = False,
     setCurrentTimeline_ok = False, timecode_throws = None, insertClips_ok = False,
     dropClips_ok = False, appendToTimeline_ok = False, dropClipsEnd_ok = False\<rparr>"

definition quiet :: fire_env where
  "quiet = \<lparr>fs_view = no_files, resolve_answers = resolve_down, taskkill_error = None\<rparr>"


definition out0 :: string where
  "out0 = make_outputPath ''V'' (now_iso clock0)"

definition ladder0 :: ladder where
  "ladder0 = \<lparr>fallbackCommands = build_fallbackCommands ''30'' ''1920x1080'' ''Cam'' None out0,
     currentAttempt = 0, ioErrorDetected = False, outputPath = out0\<rparr>"

text \<open>The process of the \<open>k\<close>-th attempt of that ladder, as \<open>attemptRecording\<close>
  spawns it.\<close>

definition attempt_proc :: "nat \<Rightarrow> proc" where
  "attempt_proc k =
     new_proc k ''cmd.exe''
       [''/d'', ''/s'', ''/c'',
        quoted (replace (replace (fallbackCommands ladder0 ! k) out0 (attempt_path out0 k))
                  ''ffmpeg'' ''ffmpeg -y'')]
       [LadderClose 0 (attempt_path out0 k)] (Some (LadderError 0)) (Some 0)"

text \<open>A regular-camera session whose first attempt is running.\<close>

definition attempting :: state where
  "attempting = host0
     \<lparr>recordingProcess := Some 0, isRecording := True, currentRecordingPath := Some out0,
      originalRecordingPath := Some out0, procs := [attempt_proc 0], ladders := [ladder0],
      nextTask := 1\<rparr>"


text \<open>The running first attempt after \<open>stopRecording\<close> was called once.\<close>

definition stopping :: state where
  "stopping = snd (stopRecording attempting)"


section \<open>Starting and stopping\<close>

text \<open>
  C6. A start request made while a recording is live returns the failure
  "Recording already in progress" and leaves the whole module state as it was: the process
  handle, the recording flag and the current recording path are untouched.
\<close>

theorem start_rejected_while_recording:
  "isRecording s \<Longrightarrow> startRecording opts env s = (StartFailure ''Recording already in progress'', s)"
  by (simp add: startRecording_def)

lemma host0_desktop_recording: "isRecording (snd (startRecording desktop_opts clock0 host0))"
  by (simp add: startRecording_def desktop_opts_def clock0_def host0_def initial_def
      resolve_region_def source_args_def mark_recording_def Let_def)

theorem start_rejected_while_recording_witness:
  "isRecording (snd (startRecording desktop_opts clock0 host0)) \<and>
   startRecording desktop_opts clock0 (snd (startRecording desktop_opts clock0 host0))
     = (StartFailure ''Recording already in progress'', snd (startRecording desktop_opts clock0 host0))"
  using start_rejected_while_recording [OF host0_desktop_recording, of desktop_opts clock0]
    host0_desktop_recording by simp




text \<open>
  C10. \<open>stopRecording\<close> is rejected with "No recording in progress" whenever the process
  handle is null, whatever the recording flag says. A regular (non-virtual) camera start
  returns success with the recording flag set while the audio lookup is still pending and
  no process has been spawned, so a stop issued in that window is rejected although the
  session is live.
\<close>

theorem stop_rejected_before_first_spawn:
  assumes "\<not> isRecording s" and "recordingProcess s = None"
    and "sourceType opts = Some ''camera''" and "cameraName opts = Some nm"
    and "\<not> is_obs (cleanCameraName_of nm)" and "resolve_region opts env = Inr reg"
  shows "(recordingProcess t = None \<longrightarrow>
            stopRecording t = (StopFailure ''No recording in progress'', t))
       \<and> fst (startRecording opts env s)
            = StartSuccess (make_outputPath (RECORDINGS_DIR s) (now_iso env))
       \<and> isRecording (snd (startRecording opts env s))
       \<and> recordingProcess (snd (startRecording opts env s)) = None
       \<and> procs (snd (startRecording opts env s)) = procs s
       \<and> stopRecording (snd (startRecording opts env s))
            = (StopFailure ''No recording in progress'', snd (startRecording opts env s))"
proof -
  have general: "\<And>u. recordingProcess u = None \<Longrightarrow>
      stopRecording u = (StopFailure ''No recording in progress'', u)"
    by (simp add: stopRecording_def)
  have st: "snd (startRecording opts env s)
      = mark_recording (make_outputPath (RECORDINGS_DIR s) (now_iso env))
          (start_camera opts env (make_outputPath (RECORDINGS_DIR s) (now_iso env))
             (cleanCameraName_of nm) (s\<lparr>timelineAdded := False\<rparr>))"
    using assms by (simp add: startRecording_def Let_def)
  have res: "fst (startRecording opts env s)
      = StartSuccess (make_outputPath (RECORDINGS_DIR s) (now_iso env))"
    using assms by (simp add: startRecording_def Let_def)
  have flags: "isRecording (snd (startRecording opts env s))
      \<and> recordingProcess (snd (startRecording opts env s)) = None
      \<and> procs (snd (startRecording opts env s)) = procs s"
    using assms(2,5) unfolding st
    by (simp add: mark_recording_def start_camera_def add_task_def Let_def)
  show ?thesis using general res flags by simp
qed

theorem stop_rejected_before_first_spawn_witness:
  "isRecording (snd (startRecording camera_opts clock0 host0))
   \<and> stopRecording (snd (startRecording camera_opts clock0 host0))
        = (StopFailure ''No recording in progress'', snd (startRecording camera_opts clock0 host0))"
proof -
  have a: "\<not> isRecording host0" and b: "recordingProcess host0 = None"
    by (simp_all add: host0_def initial_def)
  have c: "sourceType camera_opts = Some ''camera''" and d: "cameraName camera_opts = Some ''Cam''"
    by (simp_all add: camera_opts_def)
  have e: "\<not> is_obs (cleanCameraName_of ''Cam'')"
    by (simp add: is_obs_def cleanCameraName_of_def trim_def strip_brackets_def is_space_def
        toLowerCase_def lower_char_def startsWith_def)
  have f: "resolve_region camera_opts clock0 = Inr None"
    by (simp add: resolve_region_def camera_opts_def)
  show ?thesis
    using stop_rejected_before_first_spawn [OF a b c d e f] by simp
qed

section \<open>The completion guard\<close>

lemmas op_defs = add_task_def clear_task_def spawn_shell_def spawn_direct_def send_completed_def
  reset_session_def set_ladder_def set_proc_def write_stdin_def kill_proc_def
  add_close_listener_def mark_recording_def add_to_timeline_def processOBSRecording_def
  handleSuccessfulOBSKill_def

lemma is_promise_new [simp]:
  "is_promise \<lparr>task_id = i, delay_ms = d, job = j\<rparr>
     = (case j of TimelinePromise p w \<Rightarrow> True | _ \<Rightarrow> False)"
  by (simp add: is_promise_def)





























section \<open>Timeline integration failures\<close>























section \<open>Device names in commands\<close>

lemma str_includes_here: "str_includes (pat @ ys) pat"
proof -
  have "startsWith (pat @ ys) pat" by (simp add: startsWith_def)
  then show ?thesis by (cases "pat @ ys") auto
qed

lemma str_includes_append: "str_includes (xs @ pat @ ys) pat"
  by (induction xs) (simp_all add: str_includes_here)

lemma str_includes_mid: "str_includes (xs @ pat @ ys @ zs) pat"
  using str_includes_append [of xs pat "ys @ zs"] by simp








section \<open>Attempt paths\<close>










section \<open>A successful attempt\<close>





lemma stopping_reached: "run [Start camera_opts clock0, Fire 0 quiet, Stop] host0 = stopping"
  by code_simp


section \<open>Stopping twice, and the force-kill timer\<close>






text \<open>
  C5 on the code. A desktop recording is stopped and its process exits cleanly with code 0.
  The close handler does not clear the force-kill timer, which stays pending; a recording
  started before the three seconds are over is then killed by it (SIGKILL on the new process)
  and the recording state is reset.
\<close>

theorem stale_force_kill:
  "map job (tasks (run [Start desktop_opts clock0, Stop, Close 0 (Some 0) None full_files] host0))
     = [ForceKillTimer, TimelinePromise (make_outputPath ''V'' (now_iso clock0)) None]
   \<and> recordingProcess (run [Start desktop_opts clock0, Stop, Close 0 (Some 0) None full_files,
                             Start desktop_opts clock1] host0) = Some 1
   \<and> signals (procs (run [Start desktop_opts clock0, Stop, Close 0 (Some 0) None full_files,
                           Start desktop_opts clock1, Fire 0 quiet] host0) ! 1) = [''SIGKILL'']
   \<and> \<not> isRecording (run [Start desktop_opts clock0, Stop, Close 0 (Some 0) None full_files,
                           Start desktop_opts clock1, Fire 0 quiet] host0)"
  by code_simp

section \<open>Ladders stay sound\<close>

lemmas sound_defs = sound_def refs_ok_def ladder_ok_def spawned_def retries_def proc_refs_ok_def

lemma filter_update_same [simp]:
  "P x = P (xs ! h) \<Longrightarrow> length (filter P (xs[h := x])) = length (filter P xs)"
proof (induction xs arbitrary: h)
  case Nil then show ?case by simp
next
  case (Cons a xs) then show ?case by (cases h) auto
qed

lemma ball_update:
  "(\<forall>p \<in> set xs. Q p) \<Longrightarrow> Q x \<Longrightarrow> (\<forall>p \<in> set (xs[h := x]). Q p)"
  using set_update_subset_insert [of xs h x] by auto














lemma sound_frame:
  "procs s' = procs s \<Longrightarrow> tasks s' = tasks s \<Longrightarrow> ladders s' = ladders s \<Longrightarrow> sound s' = sound s"
  by (simp add: sound_defs)



lemma proc_refs_fields [simp]:
  "proc_refs_ok n (p\<lparr>killed := k, signals := g\<rparr>) = proc_refs_ok n p"
  "proc_refs_ok n (p\<lparr>stdin_written := w\<rparr>) = proc_refs_ok n p"
  "proc_refs_ok n (p\<lparr>exited := e\<rparr>) = proc_refs_ok n p"
  "proc_refs_ok n (p\<lparr>closeListeners := closeListeners p @ [StopClose]\<rparr>) = proc_refs_ok n p"
  by (auto simp add: proc_refs_ok_def)






lemma ladders_ops [simp]:
  "ladders (kill_proc h sig s) = ladders s"
  "ladders (write_stdin h txt s) = ladders s"
  "ladders (add_close_listener h l s) = ladders s"
  "ladders (add_task d j s) = ladders s"
  "ladders (clear_task i s) = ladders s"
  "ladders (processOBSRecording s) = ladders s"
  "ladders (handleSuccessfulOBSKill s) = ladders s"
  by (simp_all add: op_defs split: option.splits)




















section \<open>The fallback ladder\<close>



lemma attempting_reached: "run [Start camera_opts clock0, Fire 0 quiet] host0 = attempting"
  by code_simp




end
